theory Spec2Isabelle
  imports Main
begin

section \<open>HTTP errors (framework/types)\<close>

text \<open>
  The error classes of the validator.  A status is a JavaScript number; the code only
  compares it with integer literals and tests it for truthiness, so it is an \<open>int\<close> here.
  An optional property (\<open>message?: string\<close>) is an \<open>option\<close>, \<open>None\<close> standing for
  \<open>undefined\<close> and \<open>null\<close>, which \<open>??\<close> does not tell apart.
\<close>

record ValidationErrorItem =
  item_path :: "string option"
  item_message :: "string option"
  item_errorCode :: "string option"

record ErrorHeaders =
  Allow :: "string option"

text \<open>The class of an error object: the constructor that \<open>new\<close> was applied to.\<close>

datatype HttpErrorClass =
  HttpErrorBase
  | BadRequest
  | Unauthorized
  | Forbidden
  | NotFound
  | MethodNotAllowed
  | NotAcceptable
  | RequestEntityTooLarge
  | UnsupportedMediaType
  | InternalServerError

record HttpError =
  klass :: HttpErrorClass
  name :: string
  status :: int
  path :: "string option"
  message :: "string option"
  headers :: "ErrorHeaders option"
  errors :: "ValidationErrorItem list"

text \<open>The argument of the \<open>HttpError\<close> constructor.\<close>

record HttpErrorInit =
  init_status :: int
  init_path :: "string option"
  init_name :: string
  init_message :: "string option"
  init_headers :: "ErrorHeaders option"
  init_errors :: "ValidationErrorItem list option"

text \<open>
  \<open>err.errors ?? [{path: err.path, message: err.message}]\<close>: the default is taken only
  when the property is \<open>undefined\<close> or \<open>null\<close>; a list that is present is kept, whatever
  its length.
\<close>

definition new_HttpError :: "HttpErrorClass \<Rightarrow> HttpErrorInit \<Rightarrow> HttpError" where
  "new_HttpError c err =
     \<lparr> klass = c,
       name = init_name err,
       status = init_status err,
       path = init_path err,
       message = init_message err,
       headers = init_headers err,
       errors = (case init_errors err of
                   Some es \<Rightarrow> es
                 | None \<Rightarrow> [\<lparr> item_path = init_path err,
                              item_message = init_message err,
                              item_errorCode = None \<rparr>]) \<rparr>"

text \<open>
  The argument of the subclass constructors.  Each subclass declares its own argument
  type; this record has every property that some subclass reads, and a constructor reads
  only the properties of its own type.
\<close>

record ErrArg =
  arg_path :: "string option"
  arg_message :: "string option"
  arg_headers :: "ErrorHeaders option"
  arg_overrideStatus :: "int option"
  arg_errors :: "ValidationErrorItem list option"

text \<open>\<open>err.overrideStatus || d\<close>: \<open>undefined\<close> and \<open>0\<close> are falsy.\<close>

definition status_or :: "int option \<Rightarrow> int \<Rightarrow> int" where
  "status_or ov d = (case ov of None \<Rightarrow> d | Some n \<Rightarrow> if n = 0 then d else n)"

definition new_NotFound :: "ErrArg \<Rightarrow> HttpError" where
  "new_NotFound err = new_HttpError NotFound
     \<lparr> init_status = status_or (arg_overrideStatus err) 404,
       init_path = arg_path err,
       init_name = ''Not Found'',
       init_message = arg_message err,
       init_headers = None,
       init_errors = None \<rparr>"


definition new_MethodNotAllowed :: "ErrArg \<Rightarrow> HttpError" where
  "new_MethodNotAllowed err = new_HttpError MethodNotAllowed
     \<lparr> init_status = status_or (arg_overrideStatus err) 405,
       init_path = arg_path err,
       init_name = ''Method Not Allowed'',
       init_message = arg_message err,
       init_headers = arg_headers err,
       init_errors = None \<rparr>"











section \<open>Route resolution\<close>

text \<open>
  Modelled from the spec: the Route Index and its \<open>Resolve\<close> operation (section 4.1)
  live in the metadata middleware and the context class, which are not among the
  sources here.  A route entry has a method and the regex form of its path template,
  taken as a predicate on request paths.  Resolution walks the entries in declaration
  order; the first entry whose template matches the path and whose method matches wins.
  If the path matches some entry under another method, the result is a Method Not
  Allowed error with an \<open>Allow\<close> header listing the methods that match the path; if it
  matches nothing, the result is Not Found, or a pass-through when
  \<open>ignoreUndocumented\<close> is set.  The two errors are built by the constructors of
  the source.
\<close>

record RouteEntry =
  route_method :: string
  route_matches :: "string \<Rightarrow> bool"

datatype Resolution = Matched RouteEntry | Rejected HttpError | PassThrough

fun join_methods :: "string list \<Rightarrow> string" where
  "join_methods [] = []"
| "join_methods [m] = m"
| "join_methods (m # ms) = m @ '', '' @ join_methods ms"

definition allowed_methods :: "RouteEntry list \<Rightarrow> string \<Rightarrow> string list" where
  "allowed_methods idx p = map route_method (filter (\<lambda>r. route_matches r p) idx)"

definition resolve :: "RouteEntry list \<Rightarrow> bool \<Rightarrow> string \<Rightarrow> string \<Rightarrow> Resolution" where
  "resolve idx ignoreUndoc meth p =
     (case find (\<lambda>r. route_matches r p \<and> route_method r = meth) idx of
        Some r \<Rightarrow> Matched r
      | None \<Rightarrow>
          if allowed_methods idx p \<noteq> [] then
            Rejected (new_MethodNotAllowed
              \<lparr> arg_path = Some p,
                arg_message = Some (meth @ '' method not allowed''),
                arg_headers = Some \<lparr> Allow = Some (join_methods (allowed_methods idx p)) \<rparr>,
                arg_overrideStatus = None,
                arg_errors = None \<rparr>)
          else if ignoreUndoc then PassThrough
          else Rejected (new_NotFound
              \<lparr> arg_path = Some p,
                arg_message = Some ''not found'',
                arg_headers = None,
                arg_overrideStatus = None,
                arg_errors = None \<rparr>))"

section \<open>JavaScript values that are thrown\<close>

text \<open>
  A promise may be rejected with any value, and \<open>throw\<close> may throw any value.  The code
  tests such values for truthiness (\<open>if (error) throw error\<close>), so the falsy ones are
  kept apart from the error objects.
\<close>

datatype js_value =
  JsUndefined
  | JsNull
  | JsBool bool
  | JsNumber int
  | JsString string
  | JsError string
  | JsTypeError string

fun truthy :: "js_value \<Rightarrow> bool" where
  "truthy JsUndefined = False"
| "truthy JsNull = False"
| "truthy (JsBool b) = b"
| "truthy (JsNumber n) = (n \<noteq> 0)"
| "truthy (JsString s) = (s \<noteq> [])"
| "truthy (JsError m) = True"
| "truthy (JsTypeError m) = True"

section \<open>Validator options (framework/types)\<close>

text \<open>
  A function value is only stored and passed on by the code modelled here; it is a
  reference.  An object whose properties the code never reads is a property list.
\<close>

type_synonym fn_ref = nat
type_synonym plain_object = "(string \<times> string) list"

datatype coerce = CoerceBool bool | CoerceArray

datatype removeAdditional = RemoveBool bool | RemoveAll | RemoveFailing

record ValidateRequestOpts =
  req_allErrors :: "bool option"
  req_allowUnknownQueryParameters :: "bool option"
  req_coerceTypes :: "coerce option"
  req_removeAdditional :: "removeAdditional option"

record ValidateResponseOpts =
  res_allErrors :: "bool option"
  res_removeAdditional :: "removeAdditional option"
  res_coerceTypes :: "coerce option"
  res_onError :: "fn_ref option"

record ValidateSecurityOpts =
  handlers :: "(string \<times> fn_ref) list option"

record OperationHandlerOptions =
  basePath :: string
  resolver :: fn_ref

datatype fmt_type = NumberType | StringType

record Format =
  fmt_name :: string
  fmt_type :: "fmt_type option"
  fmt_validate :: fn_ref

datatype ajv_Format = FormatValidate fn_ref | FormatTyped fmt_type fn_ref | FormatTrue

record SerDes =
  format :: string
  serialize :: "fn_ref option"
  deserialize :: "fn_ref option"

record Components =
  securitySchemes :: "(string \<times> plain_object) list option"

record Document =
  openapi :: string
  components :: "Components option"

text \<open>A property of type \<open>boolean | T\<close>.\<close>

datatype 'a bool_or = IsBool bool | IsObject 'a

datatype apiSpec_value = ApiSpecPath string | ApiSpecDocument Document

datatype operationHandlers_value =
  OperationHandlersUndefined
  | OperationHandlersNull
  | OperationHandlersFalse
  | OperationHandlersString string
  | OperationHandlersObject OperationHandlerOptions

datatype unknownFormats_value =
  UnknownFormatsBool bool
  | UnknownFormatsString string
  | UnknownFormatsArray "string list"

datatype formats_value =
  FormatsArray "Format list"
  | FormatsRecord "string \<rightharpoonup> ajv_Format"

datatype validateFormats_value = ValidateFormatsBool bool | ValidateFormatsString string

datatype FormatsPluginOptions = FormatNames "string list" | FormatMode "string option"

datatype refParser_mode = Bundle | Dereference

text \<open>
  The options object.  An optional property is an \<open>option\<close>; for \<open>apiSpec\<close>, which the
  type requires, \<open>None\<close> is the object that has it \<open>undefined\<close> or \<open>null\<close> all the same.
\<close>

record OpenApiValidatorOpts =
  apiSpec :: "apiSpec_value option"
  validateApiSpec :: "bool option"
  validateResponses :: "ValidateResponseOpts bool_or option"
  validateRequests :: "ValidateRequestOpts bool_or option"
  validateSecurity :: "ValidateSecurityOpts bool_or option"
  ignorePaths :: "fn_ref option"
  ignoreUndocumented :: "bool option"
  securityHandlers :: "(string \<times> fn_ref) list option"
  coerceTypes :: "coerce option"
  useRequestUrl :: "bool option"
  unknownFormats :: "unknownFormats_value option"
  serDes :: "SerDes list option"
  formats :: "formats_value option"
  ajvFormats :: "FormatsPluginOptions option"
  fileUploader :: "plain_object bool_or option"
  multerOpts :: "plain_object option"
  refParser :: "refParser_mode option"
  operationHandlers :: operationHandlers_value
  validateFormats :: "validateFormats_value option"

text \<open>Truthiness of the option values that the code tests.\<close>

fun truthy_apiSpec :: "apiSpec_value option \<Rightarrow> bool" where
  "truthy_apiSpec None = False"
| "truthy_apiSpec (Some (ApiSpecPath p)) = (p \<noteq> [])"
| "truthy_apiSpec (Some (ApiSpecDocument d)) = True"

fun truthy_bool_or :: "'a bool_or option \<Rightarrow> bool" where
  "truthy_bool_or None = False"
| "truthy_bool_or (Some (IsBool b)) = b"
| "truthy_bool_or (Some (IsObject x)) = True"

fun truthy_operationHandlers :: "operationHandlers_value \<Rightarrow> bool" where
  "truthy_operationHandlers (OperationHandlersString s) = (s \<noteq> [])"
| "truthy_operationHandlers (OperationHandlersObject h) = True"
| "truthy_operationHandlers _ = False"

section \<open>The validator (openapi.validator)\<close>

text \<open>\<open>if (options.x == null) options.x = d\<close>\<close>

definition or_default :: "'a option \<Rightarrow> 'a \<Rightarrow> 'a option" where
  "or_default v d = (case v of None \<Rightarrow> Some d | Some x \<Rightarrow> Some x)"

text \<open>The resolver imported from \<open>./resolvers\<close>, as a reference.\<close>

definition defaultResolver :: fn_ref where
  "defaultResolver = 0"

text \<open>
  The first part of the constructor, up to the call of \<open>validateOptions\<close>, block by
  block.  The constructor assigns to the properties of the object it is given; here each
  block returns the updated object.
\<close>

definition default_options :: "OpenApiValidatorOpts \<Rightarrow> OpenApiValidatorOpts" where
  "default_options options =
     options\<lparr> validateApiSpec := or_default (validateApiSpec options) True,
              validateRequests := or_default (validateRequests options) (IsBool True),
              validateResponses := or_default (validateResponses options) (IsBool False),
              validateSecurity := or_default (validateSecurity options) (IsBool True),
              fileUploader := or_default (fileUploader options) (IsObject []),
              refParser := or_default (refParser options) Bundle,
              validateFormats :=
                or_default (validateFormats options) (ValidateFormatsBool True),
              formats := or_default (formats options) (FormatsRecord Map.empty),
              useRequestUrl := or_default (useRequestUrl options) False \<rparr>"

text \<open>\<open>typeof null\<close> is \<open>'object'\<close>, so a null \<open>operationHandlers\<close> stays as it is.\<close>

definition convert_operationHandlers :: "OpenApiValidatorOpts \<Rightarrow> OpenApiValidatorOpts" where
  "convert_operationHandlers options =
     options\<lparr> operationHandlers :=
       (case operationHandlers options of
          OperationHandlersString s \<Rightarrow>
            OperationHandlersObject \<lparr> basePath = s, resolver = defaultResolver \<rparr>
        | OperationHandlersObject h \<Rightarrow> OperationHandlersObject h
        | OperationHandlersNull \<Rightarrow> OperationHandlersNull
        | _ \<Rightarrow> OperationHandlersFalse) \<rparr>"

definition convert_validateResponses :: "OpenApiValidatorOpts \<Rightarrow> OpenApiValidatorOpts" where
  "convert_validateResponses options =
     (if validateResponses options = Some (IsBool True)
      then options\<lparr> validateResponses := Some (IsObject
             \<lparr> res_allErrors = None,
               res_removeAdditional = Some (RemoveBool False),
               res_coerceTypes = Some (CoerceBool False),
               res_onError = None \<rparr>) \<rparr>
      else options)"

definition convert_validateRequests :: "OpenApiValidatorOpts \<Rightarrow> OpenApiValidatorOpts" where
  "convert_validateRequests options =
     (if validateRequests options = Some (IsBool True)
      then options\<lparr> validateRequests := Some (IsObject
             \<lparr> req_allErrors = None,
               req_allowUnknownQueryParameters = Some False,
               req_coerceTypes = Some (CoerceBool False),
               req_removeAdditional = None \<rparr>) \<rparr>
      else options)"

definition convert_validateSecurity :: "OpenApiValidatorOpts \<Rightarrow> OpenApiValidatorOpts" where
  "convert_validateSecurity options =
     (if validateSecurity options = Some (IsBool True)
      then options\<lparr> validateSecurity := Some (IsObject \<lparr> handlers = None \<rparr>) \<rparr>
      else options)"

definition constructor_defaults :: "OpenApiValidatorOpts \<Rightarrow> OpenApiValidatorOpts" where
  "constructor_defaults options =
     convert_validateSecurity (convert_validateRequests (convert_validateResponses
       (convert_operationHandlers (default_options options))))"

text \<open>
  \<open>validateOptions\<close>: \<open>None\<close> when it returns, \<open>Some e\<close> when it throws \<open>e\<close>.  The
  calls of \<open>console.warn\<close> change neither the options nor the control flow and are left
  out.
\<close>

definition unknownFormats_message :: string where
  "unknownFormats_message =
     ''unknownFormats must contain an array of unknownFormats, 'ignore' or true''"

definition validateOptions :: "OpenApiValidatorOpts \<Rightarrow> js_value option" where
  "validateOptions options =
     (if \<not> truthy_apiSpec (apiSpec options) then Some (JsError ''apiSpec required.'')
      else if securityHandlers options \<noteq> None then
        Some (JsError
          ''securityHandlers is not supported. Use validateSecurities.handlers instead.'')
      else if multerOpts options \<noteq> None then
        Some (JsError ''multerOpts is not supported. Use fileUploader instead.'')
      else (case unknownFormats options of
              Some (UnknownFormatsBool b) \<Rightarrow>
                if \<not> b then Some (JsError unknownFormats_message) else None
            | Some (UnknownFormatsString s) \<Rightarrow>
                if s \<noteq> ''ignore'' then Some (JsError unknownFormats_message) else None
            | _ \<Rightarrow> None))"

text \<open>
  \<open>normalizeOptions\<close>, block by block.  The list \<open>defaultSerDes\<close> is imported
  from \<open>./framework/base.serdes\<close> and is a parameter here.
\<close>

definition formats_of_array :: "Format list \<Rightarrow> (string \<rightharpoonup> ajv_Format)" where
  "formats_of_array fs =
     foldl (\<lambda>m f. m(fmt_name f \<mapsto>
              (case fmt_type f of
                 Some t \<Rightarrow> FormatTyped t (fmt_validate f)
               | None \<Rightarrow> FormatValidate (fmt_validate f))))
           Map.empty fs"

text \<open>
  The \<open>forEach\<close> over the defaults: a default is pushed unless \<open>find\<close> gives an entry of
  the list, as it is by then, with the same format.
\<close>

definition push_default :: "SerDes list \<Rightarrow> SerDes \<Rightarrow> SerDes list" where
  "push_default optionSerDes currentDefaultSerDes =
     (case find (\<lambda>currentOptionSerDes.
                   format currentDefaultSerDes = format currentOptionSerDes) optionSerDes of
        None \<Rightarrow> optionSerDes @ [currentDefaultSerDes]
      | Some defaultSerDesOverride \<Rightarrow> optionSerDes)"

definition normalize_serDes :: "SerDes list \<Rightarrow> SerDes list option \<Rightarrow> SerDes list" where
  "normalize_serDes defaultSerDes s =
     (case s of
        None \<Rightarrow> defaultSerDes
      | Some optionSerDes \<Rightarrow> foldl push_default optionSerDes defaultSerDes)"

definition formats_record :: "formats_value option \<Rightarrow> (string \<rightharpoonup> ajv_Format)" where
  "formats_record f =
     (case f of
        Some (FormatsRecord m) \<Rightarrow> m
      | Some (FormatsArray fs) \<Rightarrow> formats_of_array fs
      | None \<Rightarrow> Map.empty)"

definition convert_formats :: "OpenApiValidatorOpts \<Rightarrow> OpenApiValidatorOpts" where
  "convert_formats options =
     (case formats options of
        Some (FormatsArray fs) \<Rightarrow>
          options\<lparr> formats := Some (FormatsRecord (formats_of_array fs)) \<rparr>
      | _ \<Rightarrow> options)"

definition merge_serDes :: "SerDes list \<Rightarrow> OpenApiValidatorOpts \<Rightarrow> OpenApiValidatorOpts" where
  "merge_serDes defaultSerDes options =
     options\<lparr> serDes := Some (normalize_serDes defaultSerDes (serDes options)) \<rparr>"

definition convert_validateFormats :: "OpenApiValidatorOpts \<Rightarrow> OpenApiValidatorOpts" where
  "convert_validateFormats options =
     (case validateFormats options of
        Some (ValidateFormatsString s) \<Rightarrow>
          options\<lparr> ajvFormats := (case ajvFormats options of
                                    None \<Rightarrow> Some (FormatMode (Some s))
                                  | Some a \<Rightarrow> Some a),
                   validateFormats := Some (ValidateFormatsBool True) \<rparr>
      | Some (ValidateFormatsBool b) \<Rightarrow>
          (if b \<and> ajvFormats options = None
           then options\<lparr> ajvFormats := Some (FormatMode (Some ''fast'')) \<rparr>
           else options)
      | None \<Rightarrow> options)"

definition convert_unknownFormats :: "OpenApiValidatorOpts \<Rightarrow> OpenApiValidatorOpts" where
  "convert_unknownFormats options =
     (case unknownFormats options of
        Some (UnknownFormatsArray us) \<Rightarrow>
          options\<lparr> formats := Some (FormatsRecord
            (foldl (\<lambda>m u. m(u \<mapsto> FormatTrue)) (formats_record (formats options)) us)) \<rparr>
      | Some (UnknownFormatsString s) \<Rightarrow>
          (if s = ''ignore''
           then options\<lparr> validateFormats := Some (ValidateFormatsBool False) \<rparr>
           else options)
      | _ \<Rightarrow> options)"

definition normalizeOptions ::
    "SerDes list \<Rightarrow> OpenApiValidatorOpts \<Rightarrow> OpenApiValidatorOpts" where
  "normalizeOptions defaultSerDes options =
     convert_unknownFormats (convert_validateFormats
       (merge_serDes defaultSerDes (convert_formats options)))"

text \<open>
  The validator object.  \<open>ajvOpts\<close> is built from \<open>options\<close> by a class that is not
  among the sources and that nothing below reads; the object is its \<open>options\<close>.
\<close>

record OpenApiValidator =
  options :: OpenApiValidatorOpts

definition new_OpenApiValidator ::
    "SerDes list \<Rightarrow> OpenApiValidatorOpts \<Rightarrow> js_value + OpenApiValidator" where
  "new_OpenApiValidator defaultSerDes opts =
     (let options = constructor_defaults opts
      in case validateOptions options of
           Some e \<Rightarrow> Inl e
         | None \<Rightarrow> Inr \<lparr> options = normalizeOptions defaultSerDes options \<rparr>)"

text \<open>
  Modelled from the spec: the list \<open>defaultSerDes\<close> of \<open>./framework/base.serdes\<close>,
  which is not among the sources.  The built-in entries exist for at least \<open>date\<close> and
  \<open>date-time\<close>; each has a serializer.
\<close>

definition defaultSerDes :: "SerDes list" where
  "defaultSerDes =
     [\<lparr> format = ''date'', serialize = Some 1, deserialize = None \<rparr>,
      \<lparr> format = ''date-time'', serialize = Some 2, deserialize = None \<rparr>]"

section \<open>The middleware chain (installMiddleware)\<close>

record RouteMetadata =
  expressRoute :: string
  openApiRoute :: string
  httpMethod :: string
  pathParams :: "string list"

record Spec =
  spec_apiDoc :: Document
  spec_routes :: "RouteMetadata list"
  spec_serial :: nat

text \<open>
  Modelled from the spec: the context class of \<open>./framework/openapi.context\<close>, which
  is not among the sources.  The code here reads the document, the routes and the serial
  number of a context.
\<close>

record OpenApiContext =
  apiDoc :: Document
  routes :: "RouteMetadata list"
  serial :: nat

record MiddlewareContext =
  mw_context :: "OpenApiContext option"
  responseApiDoc :: "Document option"
  error :: js_value

record Request =
  req_id :: nat
  req_app :: nat
  req_baseUrl :: string

text \<open>The seven handlers that \<open>installMiddleware\<close> may push, by their names.\<close>

datatype middleware =
  pathParamsMiddleware
  | metadataMiddleware
  | securityMiddleware
  | multipartMiddleware
  | requestMiddleware
  | responseMiddleware
  | operationHandlersMiddleware

text \<open>
  What a handler of a collaborator does with \<open>next\<close>: call it, call it with an
  error, or not call it.
\<close>

datatype ext_outcome = Ext_Next | Ext_NextError js_value | Ext_NoNext

text \<open>
  What a step of a handler written in \<open>installMiddleware\<close> comes to: one of these
  three, or \<open>Queued\<close> when \<open>operationHandlersMiddleware\<close> has found no router, has
  queued \<open>installOperationHandlers\<close> and has returned.
\<close>

datatype outcome = Next | NextError js_value | NoNext | Queued

fun outcome_of :: "ext_outcome \<Rightarrow> outcome" where
  "outcome_of Ext_Next = Next"
| "outcome_of (Ext_NextError e) = NextError e"
| "outcome_of Ext_NoNext = NoNext"

text \<open>
  The collaborators that are not among the sources, as parameters: the schema
  preprocessor and the context constructor (each returns or throws), the factories of
  the five inner handlers (\<open>ext_build m c\<close> is \<open>None\<close> when the factory returns a
  handler, \<open>Some e\<close> when it throws \<open>e\<close>), the handlers they return and the installed
  router (\<open>ext_handle\<close>), and the resolver of the operation handlers.
\<close>

record Ext =
  ext_preProcess :: "Spec \<Rightarrow> js_value + Document"
  ext_new_OpenApiContext :: "Spec \<Rightarrow> js_value + OpenApiContext"
  ext_build :: "middleware \<Rightarrow> MiddlewareContext \<Rightarrow> js_value option"
  ext_handle :: "middleware \<Rightarrow> Request \<Rightarrow> ext_outcome"
  ext_resolver :: "fn_ref \<Rightarrow> string \<Rightarrow> RouteMetadata \<Rightarrow> js_value + fn_ref"

text \<open>
  \<open>pContext\<close>, once the promise of the spec has settled: \<open>Inl e\<close> is a rejection with
  \<open>e\<close>, \<open>Inr spec\<close> a fulfilment.  The \<open>catch\<close> turns a rejection, and anything thrown
  by the \<open>then\<close> callback, into a context that holds the error.  While the promise is
  pending no callback of any handler runs.
\<close>

definition failed_context :: "js_value \<Rightarrow> MiddlewareContext" where
  "failed_context e = \<lparr> mw_context = None, responseApiDoc = None, error = e \<rparr>"

definition pContext :: "Ext \<Rightarrow> js_value + Spec \<Rightarrow> MiddlewareContext" where
  "pContext x settled =
     (case settled of
        Inl e \<Rightarrow> failed_context e
      | Inr spec \<Rightarrow>
          (case ext_preProcess x spec of
             Inl e \<Rightarrow> failed_context e
           | Inr apiDocRes \<Rightarrow>
               (case ext_new_OpenApiContext x spec of
                  Inl e \<Rightarrow> failed_context e
                | Inr c \<Rightarrow>
                    \<lparr> mw_context = Some c, responseApiDoc = Some apiDocRes, error = JsNull \<rparr>)))"

text \<open>
  What the handlers do to the outside, in order: the creation of a router by
  \<open>express.Router\<close>, a call of \<open>installPathParams\<close> on the application of a request
  or on a router, a parameter bound by \<open>param\<close>, a call of a factory, a call of a
  handler.  Routers are numbered in the order of their creation.
\<close>

datatype target = App nat | OnRouter nat

datatype event =
  Create_router nat
  | Call_installPathParams target
  | Param target string
  | Build middleware
  | Handle middleware Request

record Router =
  router_id :: nat
  router_params :: "string list"
  router_routes :: "(string \<times> string \<times> fn_ref) list"

text \<open>The variables that the handlers close over, and the events so far.\<close>

record Closure =
  inited :: bool
  metamw :: bool
  scmw :: bool
  fumw :: bool
  reqmw :: bool
  resmw :: bool
  router :: "Router option"
  trace :: "event list"

definition initial_closure :: Closure where
  "initial_closure =
     \<lparr> inited = False, metamw = False, scmw = False, fumw = False, reqmw = False,
       resmw = False, router = None, trace = [] \<rparr>"

text \<open>\<open>[...new Set(pathParams)]\<close>: the first occurrence of each name, in order.\<close>

definition uniq :: "'a list \<Rightarrow> 'a list" where
  "uniq xs = foldl (\<lambda>seen x. if x \<in> set seen then seen else seen @ [x]) [] xs"

definition null_context_error :: js_value where
  "null_context_error = JsTypeError ''Cannot read properties of null''"

text \<open>
  \<open>installPathParams\<close>: the events of the call and what it throws, if anything.  With
  a null context the read of \<open>context.routes\<close> throws before any parameter is bound.
\<close>

definition installPathParams ::
    "target \<Rightarrow> OpenApiContext option \<Rightarrow> event list \<times> js_value option" where
  "installPathParams app ctx =
     (case ctx of
        None \<Rightarrow> ([Call_installPathParams app], Some null_context_error)
      | Some c \<Rightarrow>
          (Call_installPathParams app #
             map (Param app) (uniq (concat (map pathParams (routes c)))),
           None))"

definition toLowerCase :: "string \<Rightarrow> string" where
  "toLowerCase s =
     map (\<lambda>c. if 65 \<le> (of_char c :: nat) \<and> (of_char c :: nat) \<le> 90
              then char_of ((of_char c :: nat) + 32) else c) s"

text \<open>\<open>expressRoute.indexOf(baseUrl) === 0 ? expressRoute.substring(baseUrl.length) : expressRoute\<close>\<close>

definition route_path :: "string \<Rightarrow> string \<Rightarrow> string" where
  "route_path baseUrl r =
     (if take (length baseUrl) r = baseUrl then drop (length baseUrl) r else r)"

text \<open>
  \<open>isOperationHandlerOptions\<close> reads the property \<open>resolver\<close> of its argument:
  that throws a TypeError on \<open>null\<close> and \<open>undefined\<close>, gives \<open>undefined\<close> on
  \<open>false\<close> and on a string, and a function, which is truthy, on the options object.
\<close>

definition null_resolver_error :: js_value where
  "null_resolver_error = JsTypeError ''Cannot read properties of null (reading 'resolver')''"

fun isOperationHandlerOptions :: "operationHandlers_value \<Rightarrow> js_value + bool" where
  "isOperationHandlerOptions OperationHandlersUndefined = Inl null_resolver_error"
| "isOperationHandlerOptions OperationHandlersNull = Inl null_resolver_error"
| "isOperationHandlerOptions OperationHandlersFalse = Inr False"
| "isOperationHandlerOptions (OperationHandlersString s) = Inr False"
| "isOperationHandlerOptions (OperationHandlersObject h) = Inr True"

text \<open>
  The loop of \<open>installOperationHandlers\<close>: for each route the options are tested,
  and the route is resolved and registered; a test or a resolver that throws or rejects
  ends the loop with that error.
\<close>

fun install_routes ::
    "Ext \<Rightarrow> operationHandlers_value \<Rightarrow> string \<Rightarrow> RouteMetadata list \<Rightarrow> Router \<Rightarrow>
     js_value + Router" where
  "install_routes x oh baseUrl [] r = Inr r"
| "install_routes x oh baseUrl (route # rest) r =
     (case isOperationHandlerOptions oh of
        Inl e \<Rightarrow> Inl e
      | Inr ok \<Rightarrow>
          (case oh of
             OperationHandlersObject h \<Rightarrow>
               if ok then
                 (case ext_resolver x (resolver h) (basePath h) route of
                    Inl e \<Rightarrow> Inl e
                  | Inr handler \<Rightarrow>
                      install_routes x oh baseUrl rest
                        (r\<lparr> router_routes := router_routes r @
                               [(toLowerCase (httpMethod route),
                                 route_path baseUrl (expressRoute route), handler)] \<rparr>))
               else install_routes x oh baseUrl rest r
           | _ \<Rightarrow> install_routes x oh baseUrl rest r))"

text \<open>
  \<open>installOperationHandlers\<close>, called when \<open>k\<close> routers have been created: the
  events of the call and the router it resolves to, or the error it rejects with.  The
  function creates a router, calls \<open>installPathParams\<close> on it and then runs the loop.
  The \<open>await\<close> of the loop suspends the function, but what runs between two turns of
  the loop neither reads nor writes anything that another request can see: the loop
  works on its own router, and on the options and the routes, which do not change.
\<close>

definition installOperationHandlers ::
    "Ext \<Rightarrow> OpenApiValidatorOpts \<Rightarrow> string \<Rightarrow> OpenApiContext option \<Rightarrow> nat \<Rightarrow>
     event list \<times> (js_value + Router)" where
  "installOperationHandlers x opts baseUrl ctx k =
     (case installPathParams (OnRouter k) ctx of
        (evs, Some e) \<Rightarrow> (Create_router k # evs, Inl e)
      | (evs, None) \<Rightarrow>
          (case ctx of
             None \<Rightarrow> (Create_router k # evs, Inl null_context_error)
           | Some c \<Rightarrow>
               (Create_router k # evs,
                install_routes x (operationHandlers opts) baseUrl (routes c)
                  \<lparr> router_id = k,
                    router_params = uniq (concat (map pathParams (routes c))),
                    router_routes = [] \<rparr>)))"

text \<open>
  \<open>mw = mw || factory(...); return mw(req, res, next)\<close> inside a \<open>then\<close> whose
  \<open>catch\<close> is \<open>next\<close>: the new value of the variable, the outcome and the events.
\<close>

definition cached_handler ::
    "Ext \<Rightarrow> MiddlewareContext \<Rightarrow> middleware \<Rightarrow> bool \<Rightarrow> Request \<Rightarrow>
     bool \<times> outcome \<times> event list" where
  "cached_handler x pc m built req =
     (if built then (True, outcome_of (ext_handle x m req), [Handle m req])
      else case ext_build x m pc of
             Some e \<Rightarrow> (False, NextError e, [Build m])
           | None \<Rightarrow> (True, outcome_of (ext_handle x m req), [Build m, Handle m req]))"

definition has_securitySchemes :: "Document \<Rightarrow> bool" where
  "has_securitySchemes d =
     (case components d of None \<Rightarrow> False | Some c \<Rightarrow> securitySchemes c \<noteq> None)"

text \<open>
  One handler, run on a request once \<open>pContext\<close> has resolved to \<open>pc\<close>: the outcome
  and the closure afterwards.  For the first six handlers this is the callback given to
  \<open>pContext.then\<close>; destructuring \<open>{ context: { apiDoc } }\<close> throws a TypeError
  when the context is null.  For \<open>operationHandlersMiddleware\<close> it is the test
  \<open>if (router)\<close>, which the handler makes before it queues anything: with a router
  the router is called at once, without one the installation is queued.
\<close>

fun run_middleware ::
    "Ext \<Rightarrow> OpenApiValidatorOpts \<Rightarrow> MiddlewareContext \<Rightarrow> middleware \<Rightarrow> Request \<Rightarrow>
     Closure \<Rightarrow> outcome \<times> Closure" where
  "run_middleware x opts pc pathParamsMiddleware req cl =
     (if truthy (error pc) then (NextError (error pc), cl)
      else if \<not> inited cl then
        (case installPathParams (App (req_app req)) (mw_context pc) of
           (evs, Some e) \<Rightarrow> (NextError e, cl\<lparr> trace := trace cl @ evs \<rparr>)
         | (evs, None) \<Rightarrow> (Next, cl\<lparr> trace := trace cl @ evs, inited := True \<rparr>))
      else (Next, cl))"
| "run_middleware x opts pc metadataMiddleware req cl =
     (case cached_handler x pc metadataMiddleware (metamw cl) req of
        (b, out, evs) \<Rightarrow> (out, cl\<lparr> metamw := b, trace := trace cl @ evs \<rparr>))"
| "run_middleware x opts pc securityMiddleware req cl =
     (case mw_context pc of
        None \<Rightarrow> (NextError null_context_error, cl)
      | Some c \<Rightarrow>
          if truthy_bool_or (validateSecurity opts) \<and> has_securitySchemes (apiDoc c) then
            (case cached_handler x pc securityMiddleware (scmw cl) req of
               (b, out, evs) \<Rightarrow> (out, cl\<lparr> scmw := b, trace := trace cl @ evs \<rparr>))
          else (Next, cl))"
| "run_middleware x opts pc multipartMiddleware req cl =
     (case mw_context pc of
        None \<Rightarrow> (NextError null_context_error, cl)
      | Some c \<Rightarrow>
          (case cached_handler x pc multipartMiddleware (fumw cl) req of
             (b, out, evs) \<Rightarrow> (out, cl\<lparr> fumw := b, trace := trace cl @ evs \<rparr>)))"
| "run_middleware x opts pc requestMiddleware req cl =
     (case mw_context pc of
        None \<Rightarrow> (NextError null_context_error, cl)
      | Some c \<Rightarrow>
          (case cached_handler x pc requestMiddleware (reqmw cl) req of
             (b, out, evs) \<Rightarrow> (out, cl\<lparr> reqmw := b, trace := trace cl @ evs \<rparr>)))"
| "run_middleware x opts pc responseMiddleware req cl =
     (case mw_context pc of
        None \<Rightarrow> (NextError null_context_error, cl)
      | Some c \<Rightarrow>
          (case cached_handler x pc responseMiddleware (resmw cl) req of
             (b, out, evs) \<Rightarrow> (out, cl\<lparr> resmw := b, trace := trace cl @ evs \<rparr>)))"
| "run_middleware x opts pc operationHandlersMiddleware req cl =
     (case router cl of
        Some r \<Rightarrow>
          (outcome_of (ext_handle x operationHandlersMiddleware req),
           cl\<lparr> trace := trace cl @ [Handle operationHandlersMiddleware req] \<rparr>)
      | None \<Rightarrow> (Queued, cl))"

fun is_create_router :: "event \<Rightarrow> bool" where
  "is_create_router (Create_router k) = True"
| "is_create_router _ = False"

text \<open>
  The two callbacks that \<open>operationHandlersMiddleware\<close> queues when it has found no
  router.  The first calls \<open>installOperationHandlers\<close>; the number of the new router
  is the number of routers created so far.  The second runs once the installation has
  resolved to a router: \<open>(router = installedRouter)(req, res, next)\<close>.  A request
  that tested \<open>router\<close> before this assignment installs a router of its own.
\<close>

definition start_install ::
    "Ext \<Rightarrow> OpenApiValidatorOpts \<Rightarrow> MiddlewareContext \<Rightarrow> Request \<Rightarrow> Closure \<Rightarrow>
     (js_value + Router) \<times> Closure" where
  "start_install x opts pc req cl =
     (case installOperationHandlers x opts (req_baseUrl req) (mw_context pc)
             (length (filter is_create_router (trace cl))) of
        (evs, res) \<Rightarrow> (res, cl\<lparr> trace := trace cl @ evs \<rparr>))"

definition finish_install :: "Ext \<Rightarrow> Router \<Rightarrow> Request \<Rightarrow> Closure \<Rightarrow> outcome \<times> Closure" where
  "finish_install x installedRouter req cl =
     (outcome_of (ext_handle x operationHandlersMiddleware req),
      cl\<lparr> router := Some installedRouter,
          trace := trace cl @ [Handle operationHandlersMiddleware req] \<rparr>)"

text \<open>The list that \<open>installMiddleware\<close> returns.\<close>

definition installMiddleware :: "OpenApiValidatorOpts \<Rightarrow> middleware list" where
  "installMiddleware opts =
     [pathParamsMiddleware, metadataMiddleware, securityMiddleware]
     @ (if truthy_bool_or (fileUploader opts) then [multipartMiddleware] else [])
     @ (if truthy_bool_or (validateRequests opts) then [requestMiddleware] else [])
     @ (if truthy_bool_or (validateResponses opts) then [responseMiddleware] else [])
     @ (if truthy_operationHandlers (operationHandlers opts)
        then [operationHandlersMiddleware] else [])"

text \<open>
  The host framework runs the list on each request: a handler that calls \<open>next()\<close>
  hands the request to the handler after it, one that calls \<open>next(e)\<close> with a truthy
  \<open>e\<close> hands \<open>e\<close> to the error continuation, and the framework takes a falsy \<open>e\<close> as no
  error.  Requests are interleaved: a step runs the pending callback of one request, and
  a schedule is the list of the requests that take a step, in order.  A request waiting
  for the load and one arriving after it both stand before the first handler.  The
  callbacks of the first six handlers have no suspension point of their own, and a
  handler of a collaborator is taken to reach its outcome within its step.
  \<open>operationHandlersMiddleware\<close> takes up to three steps: the test of \<open>router\<close>, the
  call of \<open>installOperationHandlers\<close>, and the assignment to \<open>router\<close> with the call
  of the router; steps of other requests may come between them.  The test runs in the
  code as soon as the handler before it calls \<open>next\<close>; as a step of its own it may
  also come later, so the schedules cover every order of the code.
\<close>

datatype phase =
  Before nat
  | Installing nat
  | Assigning nat Router
  | Failed js_value
  | Ended

record System =
  closure :: Closure
  phase_of :: "Request \<Rightarrow> phase"

definition initial_system :: System where
  "initial_system = \<lparr> closure = initial_closure, phase_of = (\<lambda>r. Before 0) \<rparr>"

definition after_outcome :: "nat \<Rightarrow> outcome \<Rightarrow> phase" where
  "after_outcome i out =
     (case out of
        Next \<Rightarrow> Before (Suc i)
      | NextError e \<Rightarrow> if truthy e then Failed e else Before (Suc i)
      | NoNext \<Rightarrow> Ended
      | Queued \<Rightarrow> Installing i)"

definition step ::
    "Ext \<Rightarrow> OpenApiValidatorOpts \<Rightarrow> MiddlewareContext \<Rightarrow> System \<Rightarrow> Request \<Rightarrow> System" where
  "step x opts pc s req =
     (case phase_of s req of
        Before i \<Rightarrow>
          if i < length (installMiddleware opts) then
            (case run_middleware x opts pc (installMiddleware opts ! i) req (closure s) of
               (out, cl) \<Rightarrow>
                 \<lparr> closure = cl, phase_of = (phase_of s)(req := after_outcome i out) \<rparr>)
          else s
      | Installing i \<Rightarrow>
          (case start_install x opts pc req (closure s) of
             (Inl e, cl) \<Rightarrow>
               \<lparr> closure = cl,
                 phase_of = (phase_of s)(req := after_outcome i (NextError e)) \<rparr>
           | (Inr installedRouter, cl) \<Rightarrow>
               \<lparr> closure = cl,
                 phase_of = (phase_of s)(req := Assigning i installedRouter) \<rparr>)
      | Assigning i installedRouter \<Rightarrow>
          (case finish_install x installedRouter req (closure s) of
             (out, cl) \<Rightarrow>
               \<lparr> closure = cl, phase_of = (phase_of s)(req := after_outcome i out) \<rparr>)
      | Failed e \<Rightarrow> s
      | Ended \<Rightarrow> s)"

definition run ::
    "Ext \<Rightarrow> OpenApiValidatorOpts \<Rightarrow> MiddlewareContext \<Rightarrow> Request list \<Rightarrow> System" where
  "run x opts pc schedule = foldl (step x opts pc) initial_system schedule"

text \<open>
  The calls of \<open>installPathParams\<close> in a trace: all of them, and those on an
  application.  The events of the routers: their creation and the calls of
  \<open>installPathParams\<close> on them.  \<open>router_installs n\<close> is the trace of \<open>n\<close> routers,
  each created and then given its one call.
\<close>

fun is_install :: "event \<Rightarrow> bool" where
  "is_install (Call_installPathParams t) = True"
| "is_install _ = False"

fun is_app_install :: "event \<Rightarrow> bool" where
  "is_app_install (Call_installPathParams (App a)) = True"
| "is_app_install _ = False"

fun is_router_event :: "event \<Rightarrow> bool" where
  "is_router_event (Create_router k) = True"
| "is_router_event (Call_installPathParams (OnRouter k)) = True"
| "is_router_event _ = False"


fun is_security_event :: "event \<Rightarrow> bool" where
  "is_security_event (Build m) = (m = securityMiddleware)"
| "is_security_event (Handle m r) = (m = securityMiddleware)"
| "is_security_event _ = False"

section \<open>A validator with operation handlers\<close>

text \<open>
  Options that give a specification file and a directory of operation handlers, a
  document with one route and no components, collaborators that never throw and always
  call \<open>next()\<close>, and one request.
\<close>

definition example_opts :: OpenApiValidatorOpts where
  "example_opts =
     \<lparr> apiSpec = Some (ApiSpecPath ''api.yaml''), validateApiSpec = None,
       validateResponses = None, validateRequests = None, validateSecurity = None,
       ignorePaths = None, ignoreUndocumented = None, securityHandlers = None,
       coerceTypes = None, useRequestUrl = None, unknownFormats = None, serDes = None,
       formats = None, ajvFormats = None, fileUploader = None, multerOpts = None,
       refParser = None, operationHandlers = OperationHandlersString ''handlers'',
       validateFormats = None \<rparr>"

definition example_options :: OpenApiValidatorOpts where
  "example_options = normalizeOptions defaultSerDes (constructor_defaults example_opts)"

definition example_ext :: Ext where
  "example_ext =
     \<lparr> ext_preProcess = (\<lambda>spec. Inr (spec_apiDoc spec)),
       ext_new_OpenApiContext =
         (\<lambda>spec. Inr \<lparr> apiDoc = spec_apiDoc spec, routes = spec_routes spec,
                         serial = spec_serial spec \<rparr>),
       ext_build = (\<lambda>m c. None),
       ext_handle = (\<lambda>m r. Ext_Next),
       ext_resolver = (\<lambda>f b r. Inr 7) \<rparr>"

definition example_spec :: Spec where
  "example_spec =
     \<lparr> spec_apiDoc = \<lparr> openapi = ''3.0.0'', components = None \<rparr>,
       spec_routes = [\<lparr> expressRoute = ''/v1/pets/:id'', openApiRoute = ''/v1/pets/{id}'',
                        httpMethod = ''GET'', pathParams = [''id''] \<rparr>],
       spec_serial = 1 \<rparr>"

definition example_request :: Request where
  "example_request = \<lparr> req_id = 1, req_app = 0, req_baseUrl = [] \<rparr>"

definition other_request :: Request where
  "other_request = \<lparr> req_id = 2, req_app = 0, req_baseUrl = [] \<rparr>"

text \<open>A route index with two methods on one path template and one on another.\<close>

definition example_index :: "RouteEntry list" where
  "example_index =
     [\<lparr> route_method = ''GET'', route_matches = (\<lambda>p. p = ''/v1/pets'') \<rparr>,
      \<lparr> route_method = ''POST'', route_matches = (\<lambda>p. p = ''/v1/pets'') \<rparr>,
      \<lparr> route_method = ''GET'', route_matches = (\<lambda>p. take 9 p = ''/v1/pets/'') \<rparr>]"


section \<open>Properties of the error classes\<close>







text \<open>
  C3, as stated: every constructed HttpError carries a non-empty list of
  ValidationErrorItem.  It fails for an argument whose errors property is the empty
  list: \<open>??\<close> replaces only \<open>undefined\<close> and \<open>null\<close>, so the empty list is kept.
\<close>

theorem HttpError_errors_empty_counterexample:
  "errors (new_HttpError HttpErrorBase
     \<lparr> init_status = 400, init_path = Some ''/pets'', init_name = ''Bad Request'',
       init_message = Some ''bad'', init_headers = None, init_errors = Some [] \<rparr>) = []"
  by (simp add: new_HttpError_def)

text \<open>
  C3, amended.  An HttpError constructed from an argument that supplies no errors list
  carries the singleton list of the item \<open>{path, message}\<close> built from the argument's
  path and message; one constructed from an argument that supplies a list carries that
  list unchanged.  So its errors list is non-empty unless the argument supplies the
  empty list.
\<close>

theorem HttpError_errors:
  "(init_errors err = None \<longrightarrow>
      errors (new_HttpError c err) =
        [\<lparr> item_path = init_path err, item_message = init_message err,
           item_errorCode = None \<rparr>]) \<and>
   (\<forall>es. init_errors err = Some es \<longrightarrow> errors (new_HttpError c err) = es) \<and>
   (errors (new_HttpError c err) = [] \<longleftrightarrow> init_errors err = Some [])"
  by (cases "init_errors err") (simp_all add: new_HttpError_def)

theorem HttpError_errors_witness:
  "init_errors \<lparr> init_status = 404, init_path = Some ''/pets'', init_name = ''Not Found'',
       init_message = Some ''not found'', init_headers = None, init_errors = None \<rparr> = None \<and>
   errors (new_HttpError NotFound
     \<lparr> init_status = 404, init_path = Some ''/pets'', init_name = ''Not Found'',
       init_message = Some ''not found'', init_headers = None, init_errors = None \<rparr>) =
     [\<lparr> item_path = Some ''/pets'', item_message = Some ''not found'',
        item_errorCode = None \<rparr>] \<and>
   errors (new_HttpError BadRequest
     \<lparr> init_status = 400, init_path = Some ''/pets'', init_name = ''Bad Request'',
       init_message = None, init_headers = None,
       init_errors = Some [\<lparr> item_path = Some ''/body/name'',
                              item_message = Some ''must be string'',
                              item_errorCode = Some ''type.openapi.validation'' \<rparr>] \<rparr>) =
     [\<lparr> item_path = Some ''/body/name'', item_message = Some ''must be string'',
        item_errorCode = Some ''type.openapi.validation'' \<rparr>]"
  using HttpError_errors [of "\<lparr> init_status = 404, init_path = Some ''/pets'',
       init_name = ''Not Found'', init_message = Some ''not found'', init_headers = None,
       init_errors = None \<rparr>" NotFound]
    HttpError_errors [of "\<lparr> init_status = 400, init_path = Some ''/pets'',
       init_name = ''Bad Request'', init_message = None, init_headers = None,
       init_errors = Some [\<lparr> item_path = Some ''/body/name'',
                              item_message = Some ''must be string'',
                              item_errorCode = Some ''type.openapi.validation'' \<rparr>] \<rparr>" BadRequest]
  by simp


text \<open>
  C8.  When the path of a request matches some route entry, but none under the
  request's method, resolution gives a Method Not Allowed error with status 405 whose
  \<open>Allow\<close> header lists exactly the methods of the entries that match the path.  A
  MethodNotAllowed constructed without \<open>overrideStatus\<close> has status 405 and the
  headers of its argument.
\<close>

theorem resolve_method_mismatch:
  "((\<exists>r \<in> set idx. route_matches r p) \<and>
    (\<forall>r \<in> set idx. route_matches r p \<longrightarrow> route_method r \<noteq> meth) \<longrightarrow>
      (\<exists>e. resolve idx ign meth p = Rejected e \<and>
           klass e = MethodNotAllowed \<and> status e = 405 \<and>
           headers e = Some \<lparr> Allow = Some (join_methods (allowed_methods idx p)) \<rparr> \<and>
           set (allowed_methods idx p) =
             {m. \<exists>r \<in> set idx. route_matches r p \<and> route_method r = m} \<and>
           meth \<notin> set (allowed_methods idx p))) \<and>
   (arg_overrideStatus a = None \<longrightarrow>
      klass (new_MethodNotAllowed a) = MethodNotAllowed \<and>
      status (new_MethodNotAllowed a) = 405 \<and>
      headers (new_MethodNotAllowed a) = arg_headers a)"
proof (intro conjI impI)
  assume h: "(\<exists>r \<in> set idx. route_matches r p) \<and>
    (\<forall>r \<in> set idx. route_matches r p \<longrightarrow> route_method r \<noteq> meth)"
  have nofind: "find (\<lambda>r. route_matches r p \<and> route_method r = meth) idx = None"
    using h by (auto simp: find_None_iff)
  have nonempty: "allowed_methods idx p \<noteq> []"
    using h by (auto simp: allowed_methods_def filter_empty_conv)
  have sets: "set (allowed_methods idx p) =
      {m. \<exists>r \<in> set idx. route_matches r p \<and> route_method r = m}"
    by (auto simp: allowed_methods_def)
  have notin: "meth \<notin> set (allowed_methods idx p)"
    using h by (auto simp: allowed_methods_def)
  show "\<exists>e. resolve idx ign meth p = Rejected e \<and>
        klass e = MethodNotAllowed \<and> status e = 405 \<and>
        headers e = Some \<lparr> Allow = Some (join_methods (allowed_methods idx p)) \<rparr> \<and>
        set (allowed_methods idx p) =
          {m. \<exists>r \<in> set idx. route_matches r p \<and> route_method r = m} \<and>
        meth \<notin> set (allowed_methods idx p)"
    using nofind nonempty sets notin
    by (simp add: resolve_def new_MethodNotAllowed_def new_HttpError_def status_or_def)
next
  assume "arg_overrideStatus a = None"
  then show "klass (new_MethodNotAllowed a) = MethodNotAllowed"
    and "status (new_MethodNotAllowed a) = 405"
    and "headers (new_MethodNotAllowed a) = arg_headers a"
    by (simp_all add: new_MethodNotAllowed_def new_HttpError_def status_or_def)
qed

theorem resolve_method_mismatch_witness:
  "(\<exists>r \<in> set example_index. route_matches r ''/v1/pets'') \<and>
   \<not> (\<exists>r \<in> set example_index.
         route_matches r ''/v1/pets'' \<and> route_method r = ''DELETE'') \<and>
   (\<exists>e. resolve example_index False ''DELETE'' ''/v1/pets'' = Rejected e \<and>
        status e = 405 \<and>
        headers e = Some \<lparr> Allow = Some ''GET, POST'' \<rparr>) \<and>
   status (new_MethodNotAllowed
     \<lparr> arg_path = Some ''/v1/pets'', arg_message = None,
       arg_headers = Some \<lparr> Allow = Some ''GET, POST'' \<rparr>,
       arg_overrideStatus = None, arg_errors = None \<rparr>) = 405 \<and>
   headers (new_MethodNotAllowed
     \<lparr> arg_path = Some ''/v1/pets'', arg_message = None,
       arg_headers = Some \<lparr> Allow = Some ''GET, POST'' \<rparr>,
       arg_overrideStatus = None, arg_errors = None \<rparr>) =
     Some \<lparr> Allow = Some ''GET, POST'' \<rparr>"
proof -
  have m: "(\<exists>r \<in> set example_index. route_matches r ''/v1/pets'') \<and>
     (\<forall>r \<in> set example_index.
        route_matches r ''/v1/pets'' \<longrightarrow> route_method r \<noteq> ''DELETE'')"
    by (simp add: example_index_def)
  have al: "allowed_methods example_index ''/v1/pets'' = [''GET'', ''POST'']"
    by (simp add: allowed_methods_def example_index_def)
  show ?thesis
    using m al
      resolve_method_mismatch [of example_index "''/v1/pets''" "''DELETE''" False
        "\<lparr> arg_path = Some ''/v1/pets'', arg_message = None,
           arg_headers = Some \<lparr> Allow = Some ''GET, POST'' \<rparr>,
           arg_overrideStatus = None, arg_errors = None \<rparr>"]
    by auto
qed

section \<open>Properties of the constructor\<close>

lemmas constructor_blocks =
  constructor_defaults_def default_options_def convert_operationHandlers_def
  convert_validateResponses_def convert_validateRequests_def convert_validateSecurity_def

lemmas normalize_blocks =
  normalizeOptions_def convert_formats_def merge_serDes_def convert_validateFormats_def
  convert_unknownFormats_def

lemma constructor_defaults_apiSpec: "apiSpec (constructor_defaults opts) = apiSpec opts"
  by (simp add: constructor_blocks)

lemma constructor_defaults_validateResponses:
  "validateResponses opts = Some (IsBool True) \<Longrightarrow>
   validateResponses (constructor_defaults opts) = Some (IsObject
      \<lparr> res_allErrors = None, res_removeAdditional = Some (RemoveBool False),
        res_coerceTypes = Some (CoerceBool False), res_onError = None \<rparr>)"
  by (simp add: constructor_blocks or_default_def)

lemma convert_formats_validateResponses:
  "validateResponses (convert_formats opts) = validateResponses opts"
  by (simp add: convert_formats_def split: option.splits formats_value.splits)

lemma convert_validateFormats_validateResponses:
  "validateResponses (convert_validateFormats opts) = validateResponses opts"
  by (simp add: convert_validateFormats_def split: option.splits validateFormats_value.splits)

lemma convert_unknownFormats_validateResponses:
  "validateResponses (convert_unknownFormats opts) = validateResponses opts"
  by (simp add: convert_unknownFormats_def split: option.splits unknownFormats_value.splits)

lemma normalizeOptions_validateResponses:
  "validateResponses (normalizeOptions d opts) = validateResponses opts"
  by (simp add: normalizeOptions_def merge_serDes_def convert_formats_validateResponses
      convert_validateFormats_validateResponses convert_unknownFormats_validateResponses)

lemma convert_formats_serDes: "serDes (convert_formats opts) = serDes opts"
  by (simp add: convert_formats_def split: option.splits formats_value.splits)

lemma convert_validateFormats_serDes: "serDes (convert_validateFormats opts) = serDes opts"
  by (simp add: convert_validateFormats_def split: option.splits validateFormats_value.splits)

lemma convert_unknownFormats_serDes: "serDes (convert_unknownFormats opts) = serDes opts"
  by (simp add: convert_unknownFormats_def split: option.splits unknownFormats_value.splits)

lemma normalizeOptions_serDes_eq:
  "serDes (normalizeOptions d opts) = Some (normalize_serDes d (serDes opts))"
  by (simp add: normalizeOptions_def merge_serDes_def convert_formats_serDes
      convert_validateFormats_serDes convert_unknownFormats_serDes)


text \<open>
  C6.  Constructing a validator from options whose \<open>apiSpec\<close> is falsy (undefined,
  null or the empty string) throws: the constructor gives no validator, so no handler
  is installed and no request is processed.
\<close>

theorem apiSpec_required:
  "\<not> truthy_apiSpec (apiSpec opts) \<Longrightarrow>
     new_OpenApiValidator d opts = Inl (JsError ''apiSpec required.'')"
  by (simp add: new_OpenApiValidator_def Let_def validateOptions_def
      constructor_defaults_apiSpec)

theorem apiSpec_required_witness:
  "\<not> truthy_apiSpec (apiSpec (example_opts\<lparr> apiSpec := None \<rparr>)) \<and>
   new_OpenApiValidator defaultSerDes (example_opts\<lparr> apiSpec := None \<rparr>) =
     Inl (JsError ''apiSpec required.'') \<and>
   \<not> truthy_apiSpec (apiSpec (example_opts\<lparr> apiSpec := Some (ApiSpecPath []) \<rparr>)) \<and>
   new_OpenApiValidator defaultSerDes (example_opts\<lparr> apiSpec := Some (ApiSpecPath []) \<rparr>) =
     Inl (JsError ''apiSpec required.'')"
  using apiSpec_required [of "example_opts\<lparr> apiSpec := None \<rparr>" defaultSerDes]
    apiSpec_required [of "example_opts\<lparr> apiSpec := Some (ApiSpecPath []) \<rparr>" defaultSerDes]
  by simp

text \<open>
  C7.  When the options have \<open>validateResponses\<close> set to \<open>true\<close>, the constructor
  replaces it with the object \<open>{removeAdditional: false, coerceTypes: false, onError:
  null}\<close>, and the options of the validator it builds hold that object: no callback is
  registered.
\<close>

theorem validateResponses_true:
  "validateResponses opts = Some (IsBool True) \<Longrightarrow>
     validateResponses (constructor_defaults opts) = Some (IsObject
        \<lparr> res_allErrors = None, res_removeAdditional = Some (RemoveBool False),
          res_coerceTypes = Some (CoerceBool False), res_onError = None \<rparr>) \<and>
     (\<forall>v. new_OpenApiValidator d opts = Inr v \<longrightarrow>
        validateResponses (options v) = Some (IsObject
          \<lparr> res_allErrors = None, res_removeAdditional = Some (RemoveBool False),
            res_coerceTypes = Some (CoerceBool False), res_onError = None \<rparr>))"
proof -
  assume h: "validateResponses opts = Some (IsBool True)"
  note c = constructor_defaults_validateResponses [OF h]
  show ?thesis
    using c
    by (auto simp: new_OpenApiValidator_def Let_def normalizeOptions_validateResponses
        split: option.splits)
qed

theorem validateResponses_true_witness:
  "validateResponses (example_opts\<lparr> validateResponses := Some (IsBool True) \<rparr>) =
     Some (IsBool True) \<and>
   new_OpenApiValidator defaultSerDes
       (example_opts\<lparr> validateResponses := Some (IsBool True) \<rparr>) =
     Inr \<lparr> options = normalizeOptions defaultSerDes
            (constructor_defaults (example_opts\<lparr> validateResponses := Some (IsBool True) \<rparr>)) \<rparr> \<and>
   validateResponses (normalizeOptions defaultSerDes
       (constructor_defaults (example_opts\<lparr> validateResponses := Some (IsBool True) \<rparr>))) =
     Some (IsObject
        \<lparr> res_allErrors = None, res_removeAdditional = Some (RemoveBool False),
          res_coerceTypes = Some (CoerceBool False), res_onError = None \<rparr>)"
proof -
  have h: "validateResponses (example_opts\<lparr> validateResponses := Some (IsBool True) \<rparr>) =
     Some (IsBool True)" by simp
  have n: "new_OpenApiValidator defaultSerDes
       (example_opts\<lparr> validateResponses := Some (IsBool True) \<rparr>) =
     Inr \<lparr> options = normalizeOptions defaultSerDes
            (constructor_defaults (example_opts\<lparr> validateResponses := Some (IsBool True) \<rparr>)) \<rparr>"
    by (simp add: new_OpenApiValidator_def Let_def validateOptions_def
        example_opts_def constructor_blocks or_default_def)
  show ?thesis
    using h n validateResponses_true [OF h, of defaultSerDes] by simp
qed

lemma find_Some_member: "find P xs = Some x \<Longrightarrow> x \<in> set xs \<and> P x"
  by (induction xs) (auto split: if_splits)

lemma push_default_foldl:
  "\<exists>added. foldl push_default us ds = us @ added \<and> set added \<subseteq> set ds \<and>
      (\<forall>a \<in> set added. \<forall>u \<in> set us. format a \<noteq> format u)"
proof (induction ds arbitrary: us)
  case Nil
  then show ?case by simp
next
  case (Cons d ds)
  show ?case
  proof (cases "find (\<lambda>s. format d = format s) us")
    case None
    then have pd: "push_default us d = us @ [d]" by (simp add: push_default_def)
    from Cons.IH [of "us @ [d]"] obtain added where
      a: "foldl push_default (us @ [d]) ds = (us @ [d]) @ added" "set added \<subseteq> set ds"
         "\<forall>a \<in> set added. \<forall>u \<in> set (us @ [d]). format a \<noteq> format u" by blast
    have "\<forall>u \<in> set us. format d \<noteq> format u" using None by (auto simp: find_None_iff)
    with a pd show ?thesis
      by (intro exI [of _ "d # added"]) auto
  next
    case (Some s)
    then have pd: "push_default us d = us" by (simp add: push_default_def)
    from Cons.IH [of us] pd show ?thesis by auto
  qed
qed

lemma push_default_covers:
  "\<forall>d \<in> set ds. \<exists>s \<in> set (foldl push_default us ds). format s = format d"
proof (induction ds arbitrary: us)
  case Nil
  then show ?case by simp
next
  case (Cons d ds)
  have keep: "\<And>vs. set vs \<subseteq> set (foldl push_default vs ds)"
    using push_default_foldl [of _ ds] by (metis set_append Un_upper1)
  have "\<exists>s \<in> set (push_default us d). format s = format d"
  proof (cases "find (\<lambda>s. format d = format s) us")
    case None
    then show ?thesis by (simp add: push_default_def)
  next
    case (Some s)
    from find_Some_member [OF Some] have "s \<in> set us" "format s = format d" by simp_all
    with Some show ?thesis by (auto simp: push_default_def)
  qed
  then have "\<exists>s \<in> set (foldl push_default (push_default us d) ds). format s = format d"
    using keep [of "push_default us d"] by blast
  with Cons.IH [of "push_default us d"] show ?case by simp
qed

text \<open>
  C4.  After \<open>normalizeOptions\<close> the \<open>serDes\<close> list has an entry for the format of
  every built-in entry, so for \<open>date\<close> and \<open>date-time\<close>.  Without a \<open>serDes\<close> list
  in the options it is the built-in list itself.  With one, it is the list of the
  options followed by built-in entries only, none of which has the format of an entry
  of the options: where the formats agree the entry of the options is kept and the
  built-in one is not added.
\<close>

theorem normalizeOptions_serDes:
  "serDes (normalizeOptions dflt opts) = Some (normalize_serDes dflt (serDes opts)) \<and>
   (\<forall>d \<in> set dflt. \<exists>s \<in> set (normalize_serDes dflt (serDes opts)). format s = format d) \<and>
   normalize_serDes dflt None = dflt \<and>
   (\<exists>added. normalize_serDes dflt (Some us) = us @ added \<and> set added \<subseteq> set dflt \<and>
      (\<forall>a \<in> set added. \<forall>u \<in> set us. format a \<noteq> format u)) \<and>
   (\<forall>f \<in> {''date'', ''date-time''}.
      \<exists>s \<in> set (normalize_serDes defaultSerDes (serDes opts)). format s = f)"
proof (intro conjI)
  show "serDes (normalizeOptions dflt opts) = Some (normalize_serDes dflt (serDes opts))"
    by (rule normalizeOptions_serDes_eq)
  show cover: "\<forall>d \<in> set dflt.
      \<exists>s \<in> set (normalize_serDes dflt (serDes opts)). format s = format d" for dflt
    using push_default_covers [of dflt]
    by (cases "serDes opts") (auto simp: normalize_serDes_def)
  show "normalize_serDes dflt None = dflt"
    by (simp add: normalize_serDes_def)
  show "\<exists>added. normalize_serDes dflt (Some us) = us @ added \<and> set added \<subseteq> set dflt \<and>
      (\<forall>a \<in> set added. \<forall>u \<in> set us. format a \<noteq> format u)"
    using push_default_foldl [of us dflt] by (simp add: normalize_serDes_def)
  show "\<forall>f \<in> {''date'', ''date-time''}.
      \<exists>s \<in> set (normalize_serDes defaultSerDes (serDes opts)). format s = f"
    using cover [of defaultSerDes] by (simp add: defaultSerDes_def)
qed

theorem normalizeOptions_serDes_witness:
  "serDes (normalizeOptions defaultSerDes example_opts) = Some defaultSerDes \<and>
   serDes (normalizeOptions defaultSerDes
     (example_opts\<lparr> serDes :=
        Some [\<lparr> format = ''date'', serialize = Some 11, deserialize = Some 12 \<rparr>] \<rparr>)) =
     Some [\<lparr> format = ''date'', serialize = Some 11, deserialize = Some 12 \<rparr>,
           \<lparr> format = ''date-time'', serialize = Some 2, deserialize = None \<rparr>]"
  using normalizeOptions_serDes [of defaultSerDes example_opts "[]"]
    normalizeOptions_serDes [of defaultSerDes
      "example_opts\<lparr> serDes :=
        Some [\<lparr> format = ''date'', serialize = Some 11, deserialize = Some 12 \<rparr>] \<rparr>"
      "[\<lparr> format = ''date'', serialize = Some 11, deserialize = Some 12 \<rparr>]"]
  by (simp add: normalize_serDes_def push_default_def defaultSerDes_def example_opts_def)


section \<open>Properties of the middleware chain\<close>

lemma installMiddleware_first:
  "installMiddleware opts \<noteq> []" "installMiddleware opts ! 0 = pathParamsMiddleware"
  by (simp_all add: installMiddleware_def)

lemma run_snoc:
  "run x opts pc (schedule @ [req]) = step x opts pc (run x opts pc schedule) req"
  by (simp add: run_def)

subsection \<open>A load that failed\<close>

lemma pContext_rejected: "pContext x (Inl e) = failed_context e"
  by (simp add: pContext_def)

lemma step_first_truthy_error:
  assumes "truthy (error pc)" "phase_of s req = Before 0"
  shows "step x opts pc s req =
           \<lparr> closure = closure s, phase_of = (phase_of s)(req := Failed (error pc)) \<rparr>"
  using assms by (simp add: step_def installMiddleware_first after_outcome_def)

lemma run_truthy_error:
  assumes "truthy (error pc)"
  shows "closure (run x opts pc schedule) = initial_closure \<and>
         (\<forall>req. phase_of (run x opts pc schedule) req =
                  (if req \<in> set schedule then Failed (error pc) else Before 0))"
proof (induction schedule rule: rev_induct)
  case Nil
  show ?case by (simp add: run_def initial_system_def)
next
  case (snoc r rs)
  let ?s = "run x opts pc rs"
  show ?case
  proof (cases "r \<in> set rs")
    case True
    with snoc have "phase_of ?s r = Failed (error pc)" by simp
    then have "step x opts pc ?s r = ?s" by (simp add: step_def)
    with snoc True show ?thesis by (auto simp: run_snoc)
  next
    case False
    with snoc have "phase_of ?s r = Before 0" by simp
    from step_first_truthy_error [OF assms this]
    show ?thesis using snoc by (simp add: run_snoc)
  qed
qed

text \<open>
  C2.  If the promise of the spec is rejected with an error \<open>e\<close> (an error object, so
  a truthy value), then in every interleaving of requests each request that is
  processed, whether it was waiting for the load or came later, ends with \<open>e\<close> handed
  to the error continuation by the first handler, and each other request still stands
  before the first handler.  Nothing is built or installed: the closure stays as it was
  at installation, and the outcome of the load, which the handlers only read, is the
  same at every step, so the load is not tried again.
\<close>

theorem load_error_fails_every_request:
  "truthy e \<Longrightarrow>
     error (pContext x (Inl e)) = e \<and>
     closure (run x opts (pContext x (Inl e)) schedule) = initial_closure \<and>
     (\<forall>req. phase_of (run x opts (pContext x (Inl e)) schedule) req =
              (if req \<in> set schedule then Failed e else Before 0))"
  using run_truthy_error [of "pContext x (Inl e)" x opts schedule]
  by (simp add: pContext_def failed_context_def)

theorem load_error_fails_every_request_witness:
  "truthy (JsError ''ENOENT'') \<and>
   phase_of (run example_ext example_options (pContext example_ext (Inl (JsError ''ENOENT'')))
              [example_request, other_request, example_request]) example_request =
     Failed (JsError ''ENOENT'') \<and>
   phase_of (run example_ext example_options (pContext example_ext (Inl (JsError ''ENOENT'')))
              [example_request, other_request, example_request]) other_request =
     Failed (JsError ''ENOENT'') \<and>
   closure (run example_ext example_options (pContext example_ext (Inl (JsError ''ENOENT'')))
              [example_request, other_request, example_request]) = initial_closure"
proof -
  have t: "truthy (JsError ''ENOENT'')" by simp
  show ?thesis
    using t load_error_fails_every_request [OF t, of example_ext example_options
        "[example_request, other_request, example_request]"]
    by (simp add: example_request_def other_request_def)
qed

text \<open>
  A rejection with a falsy value passes the test \<open>if (error)\<close>: the first handler
  goes on to \<open>installPathParams\<close> with the null context and hands the TypeError of
  that call to \<open>next\<close>.
\<close>

lemma falsy_rejection_reason:
  "run_middleware x opts (pContext x (Inl JsUndefined)) pathParamsMiddleware req
       initial_closure =
     (NextError null_context_error,
      initial_closure\<lparr> trace := [Call_installPathParams (App (req_app req))] \<rparr>)"
  by (simp add: pContext_rejected failed_context_def installPathParams_def
      initial_closure_def)

subsection \<open>Events of the handlers\<close>

lemma installPathParams_events:
  "installPathParams t ctx = (evs, r) \<Longrightarrow>
     filter is_security_event evs = [] \<and>
     filter is_create_router evs = [] \<and>
     filter is_install evs = [Call_installPathParams t] \<and>
     filter is_app_install evs =
       (case t of App a \<Rightarrow> [Call_installPathParams t] | OnRouter k \<Rightarrow> []) \<and>
     filter is_router_event evs =
       (case t of App a \<Rightarrow> [] | OnRouter k \<Rightarrow> [Call_installPathParams t])"
  by (auto simp: installPathParams_def filter_empty_conv split: option.splits target.splits)

lemma installOperationHandlers_events:
  assumes "installOperationHandlers x opts b ctx k = (evs, r)"
  shows "filter is_security_event evs = []"
    and "filter is_app_install evs = []"
    and "filter is_create_router evs = [Create_router k]"
    and "filter is_router_event evs = [Create_router k, Call_installPathParams (OnRouter k)]"
proof -
  obtain evs' r' where i: "installPathParams (OnRouter k) ctx = (evs', r')"
    by (cases "installPathParams (OnRouter k) ctx")
  from assms i have e: "evs = Create_router k # evs'"
    by (auto simp: installOperationHandlers_def split: option.splits)
  from installPathParams_events [OF i] e
  show "filter is_security_event evs = []"
    and "filter is_app_install evs = []"
    and "filter is_create_router evs = [Create_router k]"
    and "filter is_router_event evs = [Create_router k, Call_installPathParams (OnRouter k)]"
    by simp_all
qed


lemma cached_handler_filters:
  assumes "cached_handler x pc m b req = (b', out, evs)"
  shows "filter is_app_install evs = []"
    and "filter is_router_event evs = []"
    and "filter is_create_router evs = []"
    and "m \<noteq> securityMiddleware \<Longrightarrow> filter is_security_event evs = []"
  using assms by (auto simp: cached_handler_def split: if_splits option.splits)

lemma start_install_trace:
  assumes "start_install x opts pc req cl = (res, cl')"
  shows "\<exists>evs. trace cl' = trace cl @ evs \<and>
           filter is_security_event evs = [] \<and> filter is_app_install evs = [] \<and>
           filter is_create_router evs =
             [Create_router (length (filter is_create_router (trace cl)))] \<and>
           filter is_router_event evs =
             [Create_router (length (filter is_create_router (trace cl))),
              Call_installPathParams (OnRouter (length (filter is_create_router (trace cl))))]"
    and "inited cl' = inited cl" and "scmw cl' = scmw cl"
proof -
  let ?k = "length (filter is_create_router (trace cl))"
  obtain evs r where
    i: "installOperationHandlers x opts (req_baseUrl req) (mw_context pc) ?k = (evs, r)"
    by (cases "installOperationHandlers x opts (req_baseUrl req) (mw_context pc) ?k")
  with assms have c: "cl' = cl\<lparr> trace := trace cl @ evs \<rparr>"
    by (simp add: start_install_def)
  from installOperationHandlers_events [OF i] c
  show "\<exists>evs. trace cl' = trace cl @ evs \<and>
           filter is_security_event evs = [] \<and> filter is_app_install evs = [] \<and>
           filter is_create_router evs = [Create_router ?k] \<and>
           filter is_router_event evs =
             [Create_router ?k, Call_installPathParams (OnRouter ?k)]"
    by (intro exI [of _ evs]) simp
  from c show "inited cl' = inited cl" and "scmw cl' = scmw cl" by simp_all
qed

lemma finish_install_trace:
  assumes "finish_install x r req cl = (out, cl')"
  shows "trace cl' = trace cl @ [Handle operationHandlersMiddleware req]"
    and "inited cl' = inited cl" and "scmw cl' = scmw cl"
  using assms by (auto simp: finish_install_def)


subsection \<open>A document without security schemes\<close>

lemma run_middleware_no_schemes:
  assumes "mw_context pc = Some c" "\<not> has_securitySchemes (apiDoc c)"
    and "run_middleware x opts pc m req cl = (out, cl')"
  shows "filter is_security_event (trace cl') = filter is_security_event (trace cl) \<and>
         scmw cl' = scmw cl"
proof (cases m)
  case pathParamsMiddleware
  with assms show ?thesis
    by (auto split: if_splits prod.splits option.splits dest: installPathParams_events)
next
  case metadataMiddleware
  with assms show ?thesis
    by (auto split: prod.splits dest: cached_handler_filters(4))
next
  case securityMiddleware
  with assms show ?thesis by simp
next
  case multipartMiddleware
  with assms show ?thesis
    by (auto split: prod.splits dest: cached_handler_filters(4))
next
  case requestMiddleware
  with assms show ?thesis
    by (auto split: prod.splits dest: cached_handler_filters(4))
next
  case responseMiddleware
  with assms show ?thesis
    by (auto split: prod.splits dest: cached_handler_filters(4))
next
  case operationHandlersMiddleware
  with assms show ?thesis
    by (auto split: option.splits)
qed

lemma step_no_schemes:
  assumes "mw_context pc = Some c" "\<not> has_securitySchemes (apiDoc c)"
  shows "filter is_security_event (trace (closure (step x opts pc s req))) =
           filter is_security_event (trace (closure s)) \<and>
         scmw (closure (step x opts pc s req)) = scmw (closure s)"
proof (cases "phase_of s req")
  case (Before i)
  show ?thesis
  proof (cases "i < length (installMiddleware opts)")
    case True
    obtain out cl where
      r: "run_middleware x opts pc (installMiddleware opts ! i) req (closure s) = (out, cl)"
      by (cases "run_middleware x opts pc (installMiddleware opts ! i) req (closure s)")
    from run_middleware_no_schemes [OF assms r] Before True r
    show ?thesis by (simp add: step_def)
  next
    case False
    with Before show ?thesis by (simp add: step_def)
  qed
next
  case (Installing i)
  obtain res cl where r: "start_install x opts pc req (closure s) = (res, cl)"
    by (cases "start_install x opts pc req (closure s)")
  have c: "closure (step x opts pc s req) = cl"
    using Installing r by (cases res) (simp_all add: step_def)
  from start_install_trace [OF r] c show ?thesis by auto
next
  case (Assigning i ir)
  obtain out cl where r: "finish_install x ir req (closure s) = (out, cl)"
    by (cases "finish_install x ir req (closure s)")
  have c: "closure (step x opts pc s req) = cl"
    using Assigning r by (simp add: step_def)
  from finish_install_trace [OF r] c show ?thesis by simp
next
  case (Failed e)
  then show ?thesis by (simp add: step_def)
next
  case Ended
  then show ?thesis by (simp add: step_def)
qed

lemma run_no_schemes:
  assumes "mw_context pc = Some c" "\<not> has_securitySchemes (apiDoc c)"
  shows "filter is_security_event (trace (closure (run x opts pc schedule))) = [] \<and>
         \<not> scmw (closure (run x opts pc schedule))"
proof (induction schedule rule: rev_induct)
  case Nil
  show ?case by (simp add: run_def initial_system_def initial_closure_def)
next
  case (snoc r rs)
  with step_no_schemes [OF assms, of x opts "run x opts pc rs" r]
  show ?case by (simp add: run_snoc)
qed

lemma example_pContext:
  "pContext example_ext (Inr example_spec) =
     \<lparr> mw_context = Some \<lparr> apiDoc = \<lparr> openapi = ''3.0.0'', components = None \<rparr>,
          routes = [\<lparr> expressRoute = ''/v1/pets/:id'', openApiRoute = ''/v1/pets/{id}'',
                        httpMethod = ''GET'', pathParams = [''id''] \<rparr>], serial = 1 \<rparr>,
       responseApiDoc = Some \<lparr> openapi = ''3.0.0'', components = None \<rparr>,
       error = JsNull \<rparr>"
  by (simp add: pContext_def example_ext_def example_spec_def)

text \<open>
  C10.  When the loaded document has no components, or components without
  \<open>securitySchemes\<close>, the security handler calls \<open>next()\<close> on every request and
  leaves the closure as it is, whatever \<open>validateSecurity\<close> holds; and in every
  interleaving of requests the security evaluator is never built and never called.
\<close>

theorem security_skipped_without_schemes:
  "mw_context pc = Some c \<and>
   (components (apiDoc c) = None \<or>
    (\<exists>k. components (apiDoc c) = Some k \<and> securitySchemes k = None)) \<longrightarrow>
   run_middleware x opts pc securityMiddleware req cl = (Next, cl) \<and>
   filter is_security_event (trace (closure (run x opts pc schedule))) = [] \<and>
   \<not> scmw (closure (run x opts pc schedule))"
proof
  assume h: "mw_context pc = Some c \<and>
   (components (apiDoc c) = None \<or>
    (\<exists>k. components (apiDoc c) = Some k \<and> securitySchemes k = None))"
  then have ns: "\<not> has_securitySchemes (apiDoc c)"
    by (auto simp: has_securitySchemes_def)
  from h ns have "run_middleware x opts pc securityMiddleware req cl = (Next, cl)" by simp
  with run_no_schemes [of pc c x opts schedule] h ns
  show "run_middleware x opts pc securityMiddleware req cl = (Next, cl) \<and>
   filter is_security_event (trace (closure (run x opts pc schedule))) = [] \<and>
   \<not> scmw (closure (run x opts pc schedule))" by simp
qed

theorem security_skipped_without_schemes_witness:
  "mw_context (pContext example_ext (Inr example_spec)) =
     Some \<lparr> apiDoc = \<lparr> openapi = ''3.0.0'', components = None \<rparr>,
            routes = [\<lparr> expressRoute = ''/v1/pets/:id'', openApiRoute = ''/v1/pets/{id}'',
                        httpMethod = ''GET'', pathParams = [''id''] \<rparr>], serial = 1 \<rparr> \<and>
   components (apiDoc \<lparr> apiDoc = \<lparr> openapi = ''3.0.0'', components = None \<rparr>,
            routes = [\<lparr> expressRoute = ''/v1/pets/:id'', openApiRoute = ''/v1/pets/{id}'',
                        httpMethod = ''GET'', pathParams = [''id''] \<rparr>], serial = 1 \<rparr>) = None \<and>
   truthy_bool_or (validateSecurity example_options) \<and>
   run_middleware example_ext example_options (pContext example_ext (Inr example_spec))
       securityMiddleware example_request initial_closure = (Next, initial_closure) \<and>
   filter is_security_event (trace (closure
       (run example_ext example_options (pContext example_ext (Inr example_spec))
          [example_request, example_request, example_request, other_request]))) = []"
proof -
  have v: "truthy_bool_or (validateSecurity example_options)"
    by (simp add: example_options_def example_opts_def constructor_blocks normalize_blocks
        or_default_def)
  show ?thesis
    using v security_skipped_without_schemes
      [of "pContext example_ext (Inr example_spec)"
          "\<lparr> apiDoc = \<lparr> openapi = ''3.0.0'', components = None \<rparr>,
            routes = [\<lparr> expressRoute = ''/v1/pets/:id'', openApiRoute = ''/v1/pets/{id}'',
                        httpMethod = ''GET'', pathParams = [''id''] \<rparr>], serial = 1 \<rparr>"
          example_ext example_options example_request initial_closure
          "[example_request, example_request, example_request, other_request]"]
    by (simp add: example_pContext)
qed

subsection \<open>Calls of installPathParams\<close>












end
